theory Spec2Isabelle
  imports Main "HOL-Library.Sublist"
begin

section \<open>create-app.js: the scaffolding action of create-react-express-app\<close>

text \<open>
  The program is one asynchronous commander action (create-app.js, lines 15 to 143).
  It checks that the target directory is free, runs npm, writes five template files and
  rewrites two keys of package.json. The model below follows it statement by
  statement, with every call that may throw as a branch. Strings are lists of code
  units; every template of the source is ASCII.
\<close>

subsection \<open>Strings\<close>

definition nl :: char where
  "nl = CHR 0x0A"

definition sq :: string where
  \<comment> \<open>one apostrophe, written apart where it would touch a string delimiter\<close>
  "sq = [CHR 0x27]"

definition template :: "string list \<Rightarrow> string" where
  \<comment> \<open>the text of a template literal written as in the source: a line break after the
    opening backquote, the given lines, and the closing backquote on a line of its own,
    indented by six blanks\<close>
  "template ls = concat (map (\<lambda>l. nl # l) ls) @ nl # ''      ''"

definition isWhiteSpace :: "char \<Rightarrow> bool" where
  \<comment> \<open>WhiteSpace and LineTerminator code units below 256: TAB, LF, VT, FF, CR, SP, NBSP\<close>
  "isWhiteSpace c \<longleftrightarrow>
     c = CHR 0x09 \<or> c = CHR 0x0A \<or> c = CHR 0x0B \<or> c = CHR 0x0C \<or> c = CHR 0x0D \<or>
     c = CHR 0x20 \<or> c = CHR 0xA0"

definition trim :: "string \<Rightarrow> string" where
  \<comment> \<open>String.prototype.trim\<close>
  "trim s = rev (dropWhile isWhiteSpace (rev (dropWhile isWhiteSpace s)))"

fun array_join :: "string \<Rightarrow> string list \<Rightarrow> string" where
  \<comment> \<open>Array.prototype.join on an array of strings\<close>
  "array_join sep [] = []"
| "array_join sep [x] = x"
| "array_join sep (x # y # ys) = x @ sep @ array_join sep (y # ys)"

fun replaceFirst :: "string \<Rightarrow> string \<Rightarrow> string \<Rightarrow> string" where
  \<comment> \<open>String.prototype.replace with a regular expression that is a literal text, without
    the g flag, and a replacement free of dollar patterns: the leftmost occurrence only\<close>
  "replaceFirst pat rep [] = (if pat = [] then rep else [])"
| "replaceFirst pat rep (c # cs) =
     (if prefix pat (c # cs) then rep @ drop (length pat) (c # cs)
      else c # replaceFirst pat rep cs)"

subsection \<open>The template files (lines 39 to 118)\<close>

definition server_js :: string where
  "server_js = template
    [''import express from 'express';'',
     ''import { join } from 'path';'',
     '''',
     ''const app = express();'',
     ''const PORT = process.env.PORT || 3000;'',
     '''',
     ''// Serve static files from the dist directory in production'',
     ''if (process.env.NODE_ENV === 'production') {'',
     ''  app.use(express.static(join(process.cwd(), 'dist')));'',
     '''',
     ''  app.get('*', (req, res) => {'',
     ''    res.sendFile(join(process.cwd(), 'dist', 'index.html'));'',
     ''  });'',
     ''} else {'',
     ''  console.log('In development mode. Use Vite for the frontend.');'',
     ''}'',
     '''',
     ''app.listen(PORT, () => {'',
     ''  console.log('Server is running on http://localhost:'+PORT);'',
     ''});'']"

definition vite_config_js :: string where
  "vite_config_js = template
    [''import { defineConfig } from 'vite';'',
     ''import react from '@vitejs/plugin-react';'',
     '''',
     ''export default defineConfig({'',
     ''  plugins: [react()],'',
     ''  build: {'',
     ''    outDir: 'dist','',
     ''    sourcemap: true,'',
     ''  },'',
     ''  server: {'',
     ''    proxy: {'',
     ''      '/api': {'',
     ''        target: 'http://localhost:3000','',
     ''        changeOrigin: true,'',
     ''        rewrite: (path) => path.replace(/api/, '' @ sq @ sq @ ''),'',
     ''      },'',
     ''    },'',
     ''  },'',
     ''});'']"

definition index_html :: string where
  \<open>index_html = template
    [''<!doctype html>'',
     ''<html lang="en">'',
     ''  <head>'',
     ''    <meta charset="UTF-8" />'',
     ''    <link rel="icon" type="image/svg+xml" href="/vite.svg" />'',
     ''    <meta name="viewport" content="width=device-width, initial-scale=1.0" />'',
     ''    <title>Vite + React</title>'',
     ''  </head>'',
     ''  <body>'',
     ''    <div id="root"></div>'',
     ''    <script type="module" src="/src/index.jsx"></script>'',
     ''  </body>'',
     ''</html>'']\<close>

definition src_index_jsx :: string where
  "src_index_jsx = template
    [''import { StrictMode } from 'react'' @ sq,
     ''import { createRoot } from 'react-dom/client'' @ sq,
     ''import App from './App.jsx'' @ sq,
     '''',
     ''createRoot(document.getElementById('root')).render('',
     ''  <StrictMode>'',
     ''    <App />'',
     ''  </StrictMode>,'',
     '');'']"

definition src_App_jsx :: string where
  "src_App_jsx = template
    [''import React from 'react';'',
     '''',
     ''const App = () => {'',
     ''  return <h1>Hello, Vite + React!</h1>;'',
     ''};'',
     '''',
     ''export default App;'']"

definition files :: "string \<Rightarrow> (string \<times> string) list" where
  \<comment> \<open>The object literal is evaluated inside the action, with \<open>appName\<close> in scope; its
    properties are kept in insertion order, the order \<open>Object.entries\<close> walks them in.\<close>
  "files appName =
    [(''server.js'', server_js),
     (''vite.config.js'', vite_config_js),
     (''index.html'', index_html),
     (''src/index.jsx'', src_index_jsx),
     (''src/App.jsx'', src_App_jsx)]"

subsection \<open>The manifest (lines 129 to 137)\<close>

text \<open>
  \<open>readJsonSync\<close> parses package.json into a JavaScript value. Numbers are doubles and no
  statement of the program looks into one, so their type is a parameter. The document
  that \<open>npm init -y\<close> writes is an object; an object is kept as the list of its own
  properties in property order, which is the order \<open>writeJsonSync\<close> serialises them in.
  The patch is defined on that list; what the assignments do to a value that is not an
  object is part of the action below.
\<close>

datatype 'n json =
    JNull
  | JBool bool
  | JNum 'n
  | JStr string
  | JArr "'n json list"
  | JObj "(string \<times> 'n json) list"

fun setProp :: "string \<Rightarrow> 'v \<Rightarrow> (string \<times> 'v) list \<Rightarrow> (string \<times> 'v) list" where
  \<comment> \<open>the assignment \<open>obj.key = value\<close> on a plain object, for a key that is not an array
    index: an existing property keeps its place and takes the value, a new one goes last\<close>
  "setProp key val [] = [(key, val)]"
| "setProp key val ((k, v) # props) =
     (if k = key then (key, val) # props else (k, v) # setProp key val props)"

definition manifestPatch :: "string \<Rightarrow> (string \<times> 'n json) list" where
  \<comment> \<open>the two assignments of lines 131 to 136, in the order they run\<close>
  "manifestPatch appName =
    [(''type'', JStr ''module''),
     (''scripts'', JObj
        [(''dev'', JStr ''vite''),
         (''build'', JStr ''vite build''),
         (''start'', JStr ''NODE_ENV=production node server.js'')])]"

definition applyPatch ::
  "(string \<times> 'v) list \<Rightarrow> (string \<times> 'v) list \<Rightarrow> (string \<times> 'v) list" where
  "applyPatch patch packageJson = fold (\<lambda>(key, val). setProp key val) patch packageJson"

subsection \<open>The program (lines 9 to 145)\<close>

text \<open>
  The collaborators of the action are Node's: the working directory, \<open>path.join\<close>,
  \<open>fs.existsSync\<close>, the calls into \<open>fs\<close> and \<open>child_process\<close> that change the outside, and
  \<open>fs.readJsonSync\<close>. They are the fields of the environment: for each changing call it
  says whether the call throws, and for \<open>readJsonSync\<close> what value it parses, if any
  (it throws on a missing file and on a text that is not JSON). \<open>existsSync\<close>,
  \<open>path.join\<close> on strings and \<open>console.log\<close> do not throw.

  A run is the list of the calls made, in program order, and the way the process ends.
  The action has no handler: a call that throws is the last call of the run and the
  exception leaves the action uncaught.
\<close>

datatype colour = Red | Green | Blue | Yellow

datatype 'n effect =
    ConsoleLog colour string
  | MkdirSync string bool
  | ExecSync string string
  | OutputFileSync string string
  | WriteJsonSync string "'n json" nat

record 'n env =
  cwd :: string
  path_join :: "string \<Rightarrow> string \<Rightarrow> string"
  existsSync :: "string \<Rightarrow> bool"
  throws :: "'n effect \<Rightarrow> bool"
  readJsonSync :: "string \<Rightarrow> 'n json option"

datatype 'n thrown =
    CallFailed "'n effect"
  | ReadFailed string
  | TypeError

datatype 'n outcome =
    Exited nat
  | Returned
  | Uncaught "'n thrown"
  | MissingArgument


fun mutates :: "'n effect \<Rightarrow> bool" where
  \<comment> \<open>the calls that create a directory, write a file or start a process\<close>
  "mutates (ConsoleLog c s) = False"
| "mutates (MkdirSync p r) = True"
| "mutates (ExecSync cmd d) = True"
| "mutates (OutputFileSync p s) = True"
| "mutates (WriteJsonSync p j n) = True"

fun perform :: "('n effect \<Rightarrow> bool) \<Rightarrow> 'n effect list \<Rightarrow> 'n effect list \<times> 'n effect option" where
  \<comment> \<open>a straight run of calls: the calls made, and the call that threw, if one did\<close>
  "perform thr [] = ([], None)"
| "perform thr (c # cs) =
     (if mutates c \<and> thr c then ([c], Some c)
      else (case perform thr cs of (t, r) \<Rightarrow> (c # t, r)))"

fun assignProps :: "(string \<times> 'n json) list \<Rightarrow> 'n json \<Rightarrow> 'n json option" where
  \<comment> \<open>the assignments of lines 131 to 136 on the value that was read, as the document
    \<open>writeJsonSync\<close> then serialises. The module is strict code: assigning a property on
    \<open>null\<close> or on a primitive throws a TypeError (\<open>None\<close>). On an array the assignments
    add named properties, which JSON serialisation leaves out.\<close>
  "assignProps patch (JObj props) = Some (JObj (applyPatch patch props))"
| "assignProps patch (JArr xs) = Some (JArr xs)"
| "assignProps patch JNull = None"
| "assignProps patch (JBool b) = None"
| "assignProps patch (JNum n) = None"
| "assignProps patch (JStr s) = None"

definition dependencies :: "string list" where
  "dependencies = [''react'', ''react-dom'', ''express'']"

definition devDependencies :: "string list" where
  "devDependencies = [''vite'', ''@vitejs/plugin-react'']"

definition action :: "'n env \<Rightarrow> string \<Rightarrow> 'n effect list \<times> 'n outcome" where
  "action e appName =
    (let appPath = path_join e (cwd e) appName in
     if existsSync e appPath then
       ([ConsoleLog Red (''Directory '' @ appName @ '' already exists.'')], Exited 1)
     else
       (let packageJsonPath = path_join e appPath ''package.json'' in
        case perform (throws e)
          ([ConsoleLog Green (''Creating project in '' @ appPath @ ''...''),
            MkdirSync appPath False,
            ConsoleLog Blue ''Initializing npm project...'',
            ExecSync ''npm init -y'' appPath,
            ConsoleLog Blue ''Installing dependencies...'',
            ExecSync (''npm install '' @ array_join '' '' dependencies) appPath,
            ExecSync (''npm install --save-dev '' @ array_join '' '' devDependencies) appPath,
            ConsoleLog Blue ''Setting up project structure...'',
            MkdirSync (path_join e appPath ''src'') True]
           @ map (\<lambda>(filePath, content).
                    OutputFileSync (path_join e appPath filePath) (trim content))
               (files appName)
           @ [ConsoleLog Blue ''Updating package.json...''])
        of
          (t, Some c) \<Rightarrow> (t, Uncaught (CallFailed c))
        | (t, None) \<Rightarrow>
            (case readJsonSync e packageJsonPath of
               None \<Rightarrow> (t, Uncaught (ReadFailed packageJsonPath))
             | Some packageJson \<Rightarrow>
                 (case assignProps (manifestPatch appName) packageJson of
                    None \<Rightarrow> (t, Uncaught TypeError)
                  | Some document \<Rightarrow>
                      (case perform (throws e)
                         [WriteJsonSync packageJsonPath document 2,
                          ConsoleLog Green ''Project created successfully!'',
                          ConsoleLog Blue ''Run the following commands to get started:'',
                          ConsoleLog Yellow (''cd '' @ appName),
                          ConsoleLog Yellow ''npm run dev'']
                       of
                         (t', Some c) \<Rightarrow> (t @ t', Uncaught (CallFailed c))
                       | (t', None) \<Rightarrow> (t @ t', Returned))))))"


subsection \<open>The generator\<close>

text \<open>
  The data the action builds in memory before it hands them to the file system: the
  pairs of relative path and written content, and the assignments made to the manifest.
\<close>

definition entries :: "string \<Rightarrow> (string \<times> string) list" where
  "entries appName = map (\<lambda>(filePath, content). (filePath, trim content)) (files appName)"

definition generate :: "string \<Rightarrow> (string \<times> string) list \<times> (string \<times> 'n json) list" where
  "generate appName = (entries appName, manifestPatch appName)"

definition preserved :: "(string \<times> 'v) list \<Rightarrow> (string \<times> 'v) list" where
  \<comment> \<open>the properties of a manifest other than \<open>type\<close> and \<open>scripts\<close>, in their order\<close>
  "preserved m = filter (\<lambda>(k, v). k \<noteq> ''type'' \<and> k \<noteq> ''scripts'') m"

definition written_files :: "'n effect list \<Rightarrow> (string \<times> string) list" where
  \<comment> \<open>the files a run writes with \<open>outputFileSync\<close>, in order\<close>
  "written_files t = concat (map (\<lambda>x. case x of OutputFileSync p s \<Rightarrow> [(p, s)] | _ \<Rightarrow> []) t)"

definition written_manifests :: "'n effect list \<Rightarrow> 'n json list" where
  \<comment> \<open>the documents a run writes with \<open>writeJsonSync\<close>, in order\<close>
  "written_manifests t = concat (map (\<lambda>x. case x of WriteJsonSync p j n \<Rightarrow> [j] | _ \<Rightarrow> []) t)"

subsection \<open>Reading the generated text\<close>

fun occurrences :: "string \<Rightarrow> string \<Rightarrow> nat" where
  \<comment> \<open>the number of positions of a text at which a pattern starts\<close>
  "occurrences pat [] = (if pat = [] then 1 else 0)"
| "occurrences pat (c # cs) = (if prefix pat (c # cs) then 1 else 0) + occurrences pat cs"

fun after :: "string \<Rightarrow> string \<Rightarrow> string option" where
  \<comment> \<open>what follows the leftmost occurrence of a marker\<close>
  "after m [] = (if m = [] then Some [] else None)"
| "after m (c # cs) =
     (if prefix m (c # cs) then Some (drop (length m) (c # cs)) else after m cs)"

definition isDigit :: "char \<Rightarrow> bool" where
  "isDigit c \<longleftrightarrow> c \<in> set ''0123456789''"

definition digits_after :: "string \<Rightarrow> string \<Rightarrow> string option" where
  \<comment> \<open>the decimal numeral that follows the leftmost occurrence of a marker\<close>
  "digits_after m s = map_option (takeWhile isDigit) (after m s)"

definition rewrite :: "string \<Rightarrow> string" where
  \<comment> \<open>the function the generated vite.config.js gives as \<open>rewrite\<close> (line 77):
    \<open>(path) => path.replace(/api/, '')\<close>\<close>
  "rewrite path = replaceFirst ''api'' [] path"

section \<open>Properties\<close>

subsection \<open>Assignment to a property\<close>

lemma map_of_setProp:
  "map_of (setProp key val ps) k = (if k = key then Some val else map_of ps k)"
  by (induction ps) auto

lemma setProp_present:
  "map_of ps key = Some val \<Longrightarrow> setProp key val ps = ps"
  by (induction ps) (auto split: if_splits)

lemma preserved_setProp:
  "key = ''type'' \<or> key = ''scripts'' \<Longrightarrow> preserved (setProp key val ps) = preserved ps"
  by (induction ps) (auto simp add: preserved_def)

lemma applyPatch_two:
  "applyPatch [(k1, v1), (k2, v2)] m = setProp k2 v2 (setProp k1 v1 m)"
  by (simp add: applyPatch_def)

subsection \<open>The action writes what the generator describes\<close>

lemma perform_quiet: "(\<And>c. \<not> thr c) \<Longrightarrow> perform thr cs = (cs, None)"
  by (induction cs) auto

lemma perform_thrown:
  "perform thr cs = (t, Some c) \<Longrightarrow> thr c \<and> mutates c \<and> c \<in> set cs \<and> c \<in> set t"
  by (induction cs arbitrary: t) (auto split: if_splits prod.splits)

lemma action_writes_generate:
  assumes "\<not> existsSync e (path_join e (cwd e) appName)"
    and "\<And>c. \<not> throws e c"
    and "readJsonSync e (path_join e (path_join e (cwd e) appName) ''package.json'') =
           Some (JObj props)"
  shows "written_files (fst (action e appName)) =
           map (\<lambda>(p, c). (path_join e (path_join e (cwd e) appName) p, c))
             (fst (generate appName))"
    and "written_manifests (fst (action e appName)) =
           [JObj (applyPatch (snd (generate appName)) props)]"
    and "filter mutates (fst (action e appName)) \<noteq> []"
    and "snd (action e appName) = Returned"
  using assms
  by (simp_all add: action_def Let_def perform_quiet written_files_def written_manifests_def
        generate_def entries_def files_def)

lemma uncaught_call_throws:
  assumes "snd (action e appName) = Uncaught (CallFailed c)"
  shows "throws e c \<and> mutates c \<and> c \<in> set (fst (action e appName))"
  using assms
  by (auto simp add: action_def Let_def split: if_splits prod.splits option.splits
        dest!: perform_thrown)

lemma entries_index_html: "map_of (entries appName) ''index.html'' = Some (trim index_html)"
  by (simp add: entries_def files_def)

lemma entries_server_js: "map_of (entries appName) ''server.js'' = Some (trim server_js)"
  by (simp add: entries_def files_def)

lemma entries_vite_config_js:
  "map_of (entries appName) ''vite.config.js'' = Some (trim vite_config_js)"
  by (simp add: entries_def files_def)

subsection \<open>The bundler configuration\<close>

text \<open>
  C1. The generated vite.config.js declares one proxy rule, for the prefix \<open>/api\<close>, and one
  rewrite function. The claim says that the rewrite takes the text \<open>/api\<close> off a forwarded
  path, so that \<open>/api/users\<close> goes out as \<open>/users\<close>. The function of line 77 replaces the
  leftmost \<open>api\<close>, without the slash: every path \<open>/api\<close> followed by a rest goes out as a
  slash followed by that rest, and \<open>/api/users\<close> as \<open>//users\<close>.
\<close>

theorem rewrite_keeps_leading_slash:
  "(\<exists>cfg. map_of (entries appName) ''vite.config.js'' = Some cfg \<and>
      occurrences ''proxy: {'' cfg = 1 \<and>
      occurrences (sq @ '': {'') cfg = 1 \<and>
      occurrences (sq @ ''/api'' @ sq @ '': {'') cfg = 1 \<and>
      occurrences ''rewrite:'' cfg = 1 \<and>
      occurrences (''rewrite: (path) => path.replace(/api/, '' @ sq @ sq @ ''),'') cfg = 1) \<and>
   rewrite (''/api'' @ rest) = ''/'' @ rest \<and>
   rewrite ''/api/users'' = ''//users'' \<and>
   rewrite ''/api/users'' \<noteq> ''/users''"
proof -
  have cfg: "occurrences ''proxy: {'' (trim vite_config_js) = 1"
    "occurrences (sq @ '': {'') (trim vite_config_js) = 1"
    "occurrences (sq @ ''/api'' @ sq @ '': {'') (trim vite_config_js) = 1"
    "occurrences ''rewrite:'' (trim vite_config_js) = 1"
    "occurrences (''rewrite: (path) => path.replace(/api/, '' @ sq @ sq @ ''),'')
       (trim vite_config_js) = 1"
    by code_simp+
  have rest: "rewrite (''/api'' @ rest) = ''/'' @ rest"
    by (simp add: rewrite_def)
  have users: "rewrite ''/api/users'' = ''//users''"
    by (simp add: rewrite_def)
  from cfg rest users show ?thesis
    using entries_vite_config_js [of appName] by simp
qed

subsection \<open>The generator's output\<close>

text \<open>
  C2. For every application name the manifest patch of \<open>generate\<close> assigns exactly the keys
  \<open>type\<close> and \<open>scripts\<close>: \<open>type\<close> becomes \<open>module\<close>, and \<open>scripts\<close> becomes an object with
  exactly the three names \<open>dev\<close>, \<open>build\<close> and \<open>start\<close>, bound to \<open>vite\<close>, \<open>vite build\<close> and
  \<open>NODE_ENV=production node server.js\<close>. Applied to any manifest, the patch leaves these
  two bindings in it.
\<close>

theorem manifestPatch_sets_type_and_scripts:
  "snd (generate appName) =
     [(''type'', JStr ''module''),
      (''scripts'', JObj [(''dev'', JStr ''vite''),
                         (''build'', JStr ''vite build''),
                         (''start'', JStr ''NODE_ENV=production node server.js'')])] \<and>
   map_of (applyPatch (snd (generate appName)) m) ''type'' = Some (JStr ''module'') \<and>
   map_of (applyPatch (snd (generate appName)) m) ''scripts'' =
     Some (JObj [(''dev'', JStr ''vite''),
                 (''build'', JStr ''vite build''),
                 (''start'', JStr ''NODE_ENV=production node server.js'')])"
  by (simp add: generate_def manifestPatch_def applyPatch_two map_of_setProp)

text \<open>
  C3. For every application name the entries of \<open>generate\<close> are exactly five, and their
  relative paths are \<open>server.js\<close>, \<open>vite.config.js\<close>, \<open>index.html\<close>, \<open>src/index.jsx\<close> and
  \<open>src/App.jsx\<close>, each once.
\<close>

theorem generate_five_fixed_paths:
  "length (fst (generate appName)) = 5 \<and>
   map fst (fst (generate appName)) =
     [''server.js'', ''vite.config.js'', ''index.html'', ''src/index.jsx'', ''src/App.jsx''] \<and>
   distinct (map fst (fst (generate appName)))"
  by (simp add: generate_def entries_def files_def)

text \<open>
  C4. \<open>generate\<close> does not depend on the application name: any two names give the same
  entries and the same manifest patch, and so do two calls with one name.
\<close>

theorem generate_name_invariant:
  "generate n1 = generate n2"
  by (simp add: generate_def entries_def files_def manifestPatch_def)

subsection \<open>The existence check\<close>




subsection \<open>Applying the manifest patch\<close>

text \<open>
  C6. Applying the manifest patch to any manifest leaves every key other than \<open>type\<close> and
  \<open>scripts\<close> bound as it was, and leaves the properties other than these two in the order
  they had.
\<close>

theorem applyPatch_preserves_other_keys:
  "k \<notin> {''type'', ''scripts''} \<Longrightarrow>
   map_of (applyPatch (snd (generate appName)) m) k = map_of m k \<and>
   preserved (applyPatch (snd (generate appName)) m) = preserved m"
  by (simp add: generate_def manifestPatch_def applyPatch_two preserved_setProp map_of_setProp)

theorem applyPatch_preserves_other_keys_witness:
  "''description'' \<notin> {''type'', ''scripts''} \<and>
   map_of (applyPatch (snd (generate ''demo''))
      [(''name'', JStr ''demo''), (''description'', JStr ''x''),
       (''scripts'', JObj [(''test'', JStr ''exit 1'')]), (''license'', JStr ''ISC'')])
      ''description''
     = Some (JStr ''x'' :: unit json) \<and>
   preserved (applyPatch (snd (generate ''demo''))
      [(''name'', JStr ''demo''), (''description'', JStr ''x''),
       (''scripts'', JObj [(''test'', JStr ''exit 1'')]), (''license'', JStr ''ISC'')])
     = [(''name'', JStr ''demo''), (''description'', JStr ''x''),
        (''license'', JStr ''ISC'' :: unit json)]"
  using applyPatch_preserves_other_keys
    [of "''description''" "''demo''"
        "[(''name'', JStr ''demo''), (''description'', JStr ''x''),
          (''scripts'', JObj [(''test'', JStr ''exit 1'')]),
          (''license'', JStr ''ISC'' :: unit json)]"]
  by (simp add: preserved_def)

text \<open>
  C7. Applying the manifest patch is idempotent: on any manifest, applying it twice
  gives the document that applying it once gives.
\<close>

theorem applyPatch_idempotent:
  "applyPatch (snd (generate appName)) (applyPatch (snd (generate appName)) m) =
   applyPatch (snd (generate appName)) m"
  by (simp add: generate_def manifestPatch_def applyPatch_two setProp_present map_of_setProp)

text \<open>
  C9. The patch replaces the whole \<open>scripts\<close> object and merges nothing: after it is
  applied to any manifest, \<open>scripts\<close> is an object in which no name other than \<open>dev\<close>,
  \<open>build\<close> and \<open>start\<close> is bound, whatever the manifest's \<open>scripts\<close> held before.
\<close>

theorem applyPatch_replaces_scripts:
  "name \<notin> {''dev'', ''build'', ''start''} \<Longrightarrow>
   \<exists>s. map_of (applyPatch (snd (generate appName)) m) ''scripts'' = Some (JObj s) \<and>
       map_of s name = None"
  by (simp add: generate_def manifestPatch_def applyPatch_two map_of_setProp)

theorem applyPatch_replaces_scripts_witness:
  "''test'' \<notin> {''dev'', ''build'', ''start''} \<and>
   map_of [(''test'', JStr ''exit 1'' :: unit json)] ''test'' = Some (JStr ''exit 1'') \<and>
   (\<exists>s. map_of (applyPatch (snd (generate ''demo''))
            [(''name'', JStr ''demo''),
             (''scripts'', JObj [(''test'', JStr ''exit 1'' :: unit json)])]) ''scripts''
          = Some (JObj s) \<and>
        map_of s ''test'' = None)"
  using applyPatch_replaces_scripts
    [of "''test''" "''demo''"
        "[(''name'', JStr ''demo''),
          (''scripts'', JObj [(''test'', JStr ''exit 1'' :: unit json)])]"]
  by simp

subsection \<open>The generated texts\<close>

text \<open>
  C8. The generated index.html has exactly one \<open>id\<close> attribute, with the value \<open>root\<close>, on
  one \<open>div\<close> element, and exactly one \<open>script\<close> element, which has the type \<open>module\<close> and
  whose \<open>src\<close> is the path of the UI bootstrap module, \<open>/src/index.jsx\<close>.
\<close>

theorem index_html_root_and_module_script:
  \<open>\<exists>html. map_of (entries appName) ''index.html'' = Some html \<and>
     occurrences ''id='' html = 1 \<and>
     occurrences ''id="root"'' html = 1 \<and>
     occurrences ''<div id="root"></div>'' html = 1 \<and>
     occurrences ''<script'' html = 1 \<and>
     occurrences ''type="module"'' html = 1 \<and>
     occurrences ''src='' html = 1 \<and>
     occurrences ''<script type="module" src="/src/index.jsx"></script>'' html = 1 \<and>
     ''/src/index.jsx'' = ''/'' @ fst (entries appName ! 3)\<close>
proof -
  have html: \<open>occurrences ''id='' (trim index_html) = 1\<close>
    \<open>occurrences ''id="root"'' (trim index_html) = 1\<close>
    \<open>occurrences ''<div id="root"></div>'' (trim index_html) = 1\<close>
    \<open>occurrences ''<script'' (trim index_html) = 1\<close>
    \<open>occurrences ''type="module"'' (trim index_html) = 1\<close>
    \<open>occurrences ''src='' (trim index_html) = 1\<close>
    \<open>occurrences ''<script type="module" src="/src/index.jsx"></script>'' (trim index_html) = 1\<close>
    by code_simp+
  have path: "''/src/index.jsx'' = ''/'' @ fst (entries appName ! 3)"
    by (simp add: entries_def files_def)
  from html path show ?thesis
    using entries_index_html [of appName] by simp
qed

text \<open>
  C10. The generated files agree on the backend port: the default that the generated
  server.js gives \<open>PORT\<close> when the environment has none, and the port of the proxy target
  in the generated vite.config.js, are both 3000.
\<close>

theorem default_port_equals_proxy_port:
  "\<exists>srv cfg.
     map_of (entries appName) ''server.js'' = Some srv \<and>
     map_of (entries appName) ''vite.config.js'' = Some cfg \<and>
     occurrences ''const PORT = process.env.PORT || '' srv = 1 \<and>
     occurrences ''app.listen(PORT,'' srv = 1 \<and>
     occurrences ''target:'' cfg = 1 \<and>
     digits_after ''const PORT = process.env.PORT || '' srv = Some ''3000'' \<and>
     digits_after (''target: '' @ sq @ ''http://localhost:'') cfg = Some ''3000'' \<and>
     digits_after ''const PORT = process.env.PORT || '' srv =
       digits_after (''target: '' @ sq @ ''http://localhost:'') cfg"
proof -
  have srv: "occurrences ''const PORT = process.env.PORT || '' (trim server_js) = 1"
    "occurrences ''app.listen(PORT,'' (trim server_js) = 1"
    "digits_after ''const PORT = process.env.PORT || '' (trim server_js) = Some ''3000''"
    by code_simp+
  have cfg: "occurrences ''target:'' (trim vite_config_js) = 1"
    "digits_after (''target: '' @ sq @ ''http://localhost:'') (trim vite_config_js) = Some ''3000''"
    by code_simp+
  from srv cfg show ?thesis
    using entries_server_js [of appName] entries_vite_config_js [of appName] by simp
qed

end
